theory Spec2Isabelle
  imports Main "HOL-Library.Word" "HOL-Library.Monad_Syntax"
begin

unbundle bit_operations_syntax

section \<open>The display event receiver of android\_view\_DisplayEventReceiver.cpp\<close>

text \<open>
  The file is JNI glue: a native \<open>NativeDisplayEventReceiver\<close> gets events from
  the compositor and hands them to a Java observer that it only holds through a weak
  reference. The embedding keeps the Java side as an explicit store: a heap of Java
  objects addressed by numbers, the current referent of every weak reference, the
  exception pending in the JNI environment, and the trace of the Java methods called.
  Every JNI function the file uses is a function on that state; a JNI call that the
  virtual machine answers by aborting the process (a \<open>NULL\<close> or wrongly typed object
  handed to a field accessor) returns \<open>None\<close>.
\<close>

subsection \<open>JNI values\<close>

type_synonym addr = nat
type_synonym jobject = "addr option" \<comment> \<open>a JNI reference; \<open>NULL\<close> is \<open>None\<close>\<close>
type_synonym jint = "32 word"
type_synonym jlong = "64 word"
type_synonym jfloat = "32 word" \<comment> \<open>the bits of an IEEE 754 single: sign, 8, 23\<close>
type_synonym jweak = nat \<comment> \<open>a global reference to a \<open>java.lang.ref.WeakReference\<close>\<close>

text \<open>The Java classes of \<open>gDisplayEventReceiverClassInfo\<close>, and object arrays.\<close>

datatype java_object =
    FrameTimelineObj jlong jlong jlong \<comment> \<open>vsyncId, expectedPresentationTime, deadline\<close>
  | VsyncEventDataObj jobject jint jlong
      \<comment> \<open>frameTimelines, preferredFrameTimelineIndex, frameInterval\<close>
  | FrameRateOverrideObj jint jfloat \<comment> \<open>uid, frameRateHz\<close>
  | ObjectArray "jobject list"
  | OtherObject

text \<open>The field ids registered by \<open>register_android_view_DisplayEventReceiver\<close>.\<close>

datatype jfieldID =
    F_vsyncId | F_expectedPresentationTime | F_deadline
  | F_frameInterval | F_preferredFrameTimelineIndex | F_frameTimelines

text \<open>The constructors registered as \<open>init\<close>, with their arguments.\<close>

datatype ctor_call =
    FrameTimeline_init jlong jlong jlong \<comment> \<open>\<open>(JJJ)V\<close>\<close>
  | VsyncEventData_init jobject jint jlong \<comment> \<open>\<open>([FrameTimeline;IJ)V\<close>\<close>
  | FrameRateOverride_init jint jfloat \<comment> \<open>\<open>(IF)V\<close>\<close>

text \<open>
  The observer's methods registered as \<open>dispatchVsync\<close> \<open>(JJI)V\<close>,
  \<open>dispatchHotplug\<close> \<open>(JJZ)V\<close>, \<open>dispatchModeChanged\<close> \<open>(JJIJ)V\<close> and
  \<open>dispatchFrameRateOverrides\<close>, each with the object it is called on and its arguments.
\<close>

datatype upcall =
    OnVsync jobject jlong jlong jint
  | OnHotplug jobject jlong jlong bool
  | OnModeChanged jobject jlong jlong jint jlong
  | OnFrameRateOverrides jobject jlong jlong jobject

datatype throwable =
    RuntimeException string
  | ArrayIndexOutOfBoundsException
  | JavaThrowable nat \<comment> \<open>whatever the observer's own code throws\<close>

text \<open>
  The observer's Java code is not part of the file. The model takes it as a parameter
  that sees the call and the heap at the moment of the call and says whether the method
  returns normally or throws.
\<close>

type_synonym handler = "upcall \<Rightarrow> java_object list \<Rightarrow> throwable option"

record jni_state =
  heap :: "java_object list" \<comment> \<open>the object at address \<open>a\<close> is \<open>heap ! a\<close>\<close>
  referent :: "jweak \<Rightarrow> jobject" \<comment> \<open>what each weak reference resolves to now\<close>
  resolved :: "jweak list" \<comment> \<open>the weak references resolved so far, in order\<close>
  pending :: "throwable option" \<comment> \<open>the exception pending in \<open>env\<close>\<close>
  upcalls :: "(upcall \<times> java_object list) list"
      \<comment> \<open>the observer methods called so far, each with the heap it was called on\<close>
  raised :: "(string \<times> throwable) list"
      \<comment> \<open>the exceptions handed to the message queue, with the message given\<close>
  logged :: "string list" \<comment> \<open>the warnings written with \<open>ALOGW\<close>\<close>

subsection \<open>The native structs\<close>

text \<open>
  \<open>VsyncEventData\<close> and \<open>FrameRateOverride\<close> come from the compositor's client
  library. \<open>frameTimelines\<close> is a C++ array of \<open>kFrameTimelinesLength\<close> elements: the
  list has that length, and the constant is a parameter \<open>N\<close> of the functions below.
\<close>

record FrameTimeline =
  vsyncId :: jlong
  expectedPresentationTime :: jlong
  deadlineTimestamp :: jlong

record VsyncEventData =
  frameTimelines :: "FrameTimeline list"
  preferredFrameTimelineIndex :: jint
  frameInterval :: jlong

record FrameRateOverride =
  uid :: jint
  frameRateHz :: jfloat

record ParcelableVsyncEventData =
  vsync :: VsyncEventData

text \<open>
  Where a receiver is in its life. The transitions are made by the base class
  \<open>DisplayEventDispatcher\<close> of the compositor's client library; the states are those
  of the data model.
\<close>

datatype ReceiverState = Created | Initialized | Disposed

text \<open>
  A \<open>NativeDisplayEventReceiver\<close> object: its two fields, the count of strong
  references of its base \<open>RefBase\<close> (the object is destroyed when the count falls to
  0), and the state of its base \<open>DisplayEventDispatcher\<close>. \<open>mMessageQueue\<close> is the
  queue whose exception slot is \<open>raised\<close> in the state.
\<close>

record receiver =
  mReceiverWeakGlobal :: jweak
  mVsyncEventDataWeakGlobal :: jweak
  strongCount :: nat
  lifecycle :: ReceiverState

subsection \<open>The JNI functions used\<close>

definition obj_at :: "java_object list \<Rightarrow> addr \<Rightarrow> java_object option" where
  "obj_at h a = (if a < length h then Some (h ! a) else None)"

text \<open>
  Modelled from the spec: \<open>GetReferent\<close> is defined in core\_jni\_helpers.h, not in
  this file. Resolving a weak reference yields either the object or "gone"; the model
  also records which reference was resolved.
\<close>

definition GetReferent :: "jweak \<Rightarrow> jni_state \<Rightarrow> jobject \<times> jni_state" where
  "GetReferent ref env = (referent env ref, env\<lparr>resolved := resolved env @ [ref]\<rparr>)"

fun put_int :: "jfieldID \<Rightarrow> jint \<Rightarrow> java_object \<Rightarrow> java_object option" where
  "put_int F_preferredFrameTimelineIndex v (VsyncEventDataObj ft p fi) =
     Some (VsyncEventDataObj ft v fi)"
| "put_int _ _ _ = None"

fun put_long :: "jfieldID \<Rightarrow> jlong \<Rightarrow> java_object \<Rightarrow> java_object option" where
  "put_long F_frameInterval v (VsyncEventDataObj ft p fi) = Some (VsyncEventDataObj ft p v)"
| "put_long F_vsyncId v (FrameTimelineObj i e d) = Some (FrameTimelineObj v e d)"
| "put_long F_expectedPresentationTime v (FrameTimelineObj i e d) =
     Some (FrameTimelineObj i v d)"
| "put_long F_deadline v (FrameTimelineObj i e d) = Some (FrameTimelineObj i e v)"
| "put_long _ _ _ = None"

fun get_object :: "jfieldID \<Rightarrow> java_object \<Rightarrow> jobject option" where
  "get_object F_frameTimelines (VsyncEventDataObj ft p fi) = Some ft"
| "get_object _ _ = None"

definition SetIntField :: "jobject \<Rightarrow> jfieldID \<Rightarrow> jint \<Rightarrow> jni_state \<Rightarrow> jni_state option" where
  "SetIntField obj fid v env = do {
     a \<leftarrow> obj;
     ob \<leftarrow> obj_at (heap env) a;
     ob' \<leftarrow> put_int fid v ob;
     Some (env\<lparr>heap := (heap env)[a := ob']\<rparr>)
   }"

definition SetLongField :: "jobject \<Rightarrow> jfieldID \<Rightarrow> jlong \<Rightarrow> jni_state \<Rightarrow> jni_state option" where
  "SetLongField obj fid v env = do {
     a \<leftarrow> obj;
     ob \<leftarrow> obj_at (heap env) a;
     ob' \<leftarrow> put_long fid v ob;
     Some (env\<lparr>heap := (heap env)[a := ob']\<rparr>)
   }"

definition GetObjectField :: "jobject \<Rightarrow> jfieldID \<Rightarrow> jni_state \<Rightarrow> jobject option" where
  "GetObjectField obj fid env = do {
     a \<leftarrow> obj;
     ob \<leftarrow> obj_at (heap env) a;
     get_object fid ob
   }"

text \<open>
  An index outside the array leaves \<open>ArrayIndexOutOfBoundsException\<close> pending; the read
  then returns \<open>NULL\<close> and the write does nothing.
\<close>

definition GetObjectArrayElement ::
  "jobject \<Rightarrow> nat \<Rightarrow> jni_state \<Rightarrow> (jobject \<times> jni_state) option" where
  "GetObjectArrayElement arr i env = do {
     a \<leftarrow> arr;
     ob \<leftarrow> obj_at (heap env) a;
     (case ob of
        ObjectArray els \<Rightarrow>
          (if i < length els then Some (els ! i, env)
           else Some (None, env\<lparr>pending := Some ArrayIndexOutOfBoundsException\<rparr>))
      | _ \<Rightarrow> None)
   }"

definition SetObjectArrayElement ::
  "jobject \<Rightarrow> nat \<Rightarrow> jobject \<Rightarrow> jni_state \<Rightarrow> jni_state option" where
  "SetObjectArrayElement arr i v env = do {
     a \<leftarrow> arr;
     ob \<leftarrow> obj_at (heap env) a;
     (case ob of
        ObjectArray els \<Rightarrow>
          (if i < length els
           then Some (env\<lparr>heap := (heap env)[a := ObjectArray (els[i := v])]\<rparr>)
           else Some (env\<lparr>pending := Some ArrayIndexOutOfBoundsException\<rparr>))
      | _ \<Rightarrow> None)
   }"

text \<open>Allocation takes the next free address; running out of memory is not modelled.\<close>

definition NewObjectArray :: "nat \<Rightarrow> jobject \<Rightarrow> jni_state \<Rightarrow> jobject \<times> jni_state" where
  "NewObjectArray len init env =
     (Some (length (heap env)), env\<lparr>heap := heap env @ [ObjectArray (replicate len init)]\<rparr>)"

text \<open>
  Modelled from the spec: the Java constructors of \<open>FrameTimeline\<close>,
  \<open>VsyncEventData\<close> and \<open>FrameRateOverride\<close> are defined in
  DisplayEventReceiver.java, not in this file. Each stores its arguments in the fields
  of the data model.
\<close>

fun construct :: "ctor_call \<Rightarrow> java_object" where
  "construct (FrameTimeline_init i e d) = FrameTimelineObj i e d"
| "construct (VsyncEventData_init ft p fi) = VsyncEventDataObj ft p fi"
| "construct (FrameRateOverride_init u hz) = FrameRateOverrideObj u hz"

text \<open>
  \<open>NewObject\<close> is variadic. An integer argument arrives as it is. A \<open>float\<close>
  argument is promoted to \<open>double\<close> by the call and narrowed again for a parameter of
  type \<open>F\<close>: both steps are exact on every number and on the infinities, and a NaN
  comes back as a quiet NaN, that is with bit 22 set and its other bits kept.
\<close>

definition is_nan :: "jfloat \<Rightarrow> bool" where
  "is_nan f = (f AND 0x7F800000 = 0x7F800000 \<and> f AND 0x007FFFFF \<noteq> 0)"

definition float_vararg :: "jfloat \<Rightarrow> jfloat" where
  "float_vararg f = (if is_nan f then f OR 0x00400000 else f)"

fun varargs :: "ctor_call \<Rightarrow> ctor_call" where
  "varargs (FrameRateOverride_init u hz) = FrameRateOverride_init u (float_vararg hz)"
| "varargs c = c"

definition NewObject :: "ctor_call \<Rightarrow> jni_state \<Rightarrow> jobject \<times> jni_state" where
  "NewObject c env =
     (Some (length (heap env)), env\<lparr>heap := heap env @ [construct (varargs c)]\<rparr>)"

definition CallVoidMethod :: "handler \<Rightarrow> upcall \<Rightarrow> jni_state \<Rightarrow> jni_state" where
  "CallVoidMethod h c env =
     env\<lparr>upcalls := upcalls env @ [(c, heap env)], pending := h c (heap env)\<rparr>"

definition jniThrowRuntimeException :: "string \<Rightarrow> jni_state \<Rightarrow> jni_state" where
  "jniThrowRuntimeException msg env = env\<lparr>pending := Some (RuntimeException msg)\<rparr>"

text \<open>
  Modelled from the spec: \<open>MessageQueue::raiseAndClearException\<close> is defined in
  android\_os\_MessageQueue.cpp, not in this file. After the observer's method has
  returned, a failure it reported is taken out of the environment and propagated to the
  owner of the dispatch loop; with nothing pending, nothing happens.
\<close>

definition raiseAndClearException :: "string \<Rightarrow> jni_state \<Rightarrow> jni_state" where
  "raiseAndClearException msg env =
     (case pending env of
        None \<Rightarrow> env
      | Some e \<Rightarrow> env\<lparr>pending := None, raised := raised env @ [(msg, e)]\<rparr>)"

subsection \<open>The dispatch methods\<close>

text \<open>\<open>dispatchNullEvent\<close> has the empty body \<open>{}\<close>.\<close>

definition dispatchNullEvent ::
  "receiver \<Rightarrow> handler \<Rightarrow> jlong \<Rightarrow> jlong \<Rightarrow> jni_state \<Rightarrow> jni_state option" where
  "dispatchNullEvent rcv h timestamp displayId env = Some env"

definition dispatchHotplug ::
  "receiver \<Rightarrow> handler \<Rightarrow> jlong \<Rightarrow> jlong \<Rightarrow> bool \<Rightarrow> jni_state \<Rightarrow> jni_state option" where
  "dispatchHotplug rcv h timestamp displayId connected env0 =
     (let (receiverObj, env1) = GetReferent (mReceiverWeakGlobal rcv) env0;
          env2 = (if receiverObj \<noteq> None
                  then CallVoidMethod h (OnHotplug receiverObj timestamp displayId connected) env1
                  else env1)
      in Some (raiseAndClearException ''dispatchHotplug'' env2))"

definition dispatchModeChanged ::
  "receiver \<Rightarrow> handler \<Rightarrow> jlong \<Rightarrow> jlong \<Rightarrow> jint \<Rightarrow> jlong \<Rightarrow> jni_state \<Rightarrow> jni_state option"
  where
  "dispatchModeChanged rcv h timestamp displayId modeId renderPeriod env0 =
     (let (receiverObj, env1) = GetReferent (mReceiverWeakGlobal rcv) env0;
          env2 = (if receiverObj \<noteq> None
                  then CallVoidMethod h
                         (OnModeChanged receiverObj timestamp displayId modeId renderPeriod) env1
                  else env1)
      in Some (raiseAndClearException ''dispatchModeChanged'' env2))"

text \<open>
  The loop of \<open>dispatchVsync\<close> over \<open>i = 0 .. kFrameTimelinesLength - 1\<close>: the
  \<open>i\<close>-th object of the Java array gets the three fields of the \<open>i\<close>-th native
  frame timeline.
\<close>

function dispatchVsync_loop ::
  "nat \<Rightarrow> jobject \<Rightarrow> VsyncEventData \<Rightarrow> nat \<Rightarrow> jni_state \<Rightarrow> jni_state option" where
  "dispatchVsync_loop N frameTimelinesObj vsyncEventData i env =
     (if i < N then
        (let frameTimeline = frameTimelines vsyncEventData ! i in
         case GetObjectArrayElement frameTimelinesObj i env of
           None \<Rightarrow> None
         | Some (frameTimelineObj, env1) \<Rightarrow>
         (case SetLongField frameTimelineObj F_vsyncId (vsyncId frameTimeline) env1 of
           None \<Rightarrow> None
         | Some env2 \<Rightarrow>
         (case SetLongField frameTimelineObj F_expectedPresentationTime
                 (expectedPresentationTime frameTimeline) env2 of
           None \<Rightarrow> None
         | Some env3 \<Rightarrow>
         (case SetLongField frameTimelineObj F_deadline (deadlineTimestamp frameTimeline) env3 of
           None \<Rightarrow> None
         | Some env4 \<Rightarrow> dispatchVsync_loop N frameTimelinesObj vsyncEventData (Suc i) env4))))
      else Some env)"
  by pat_completeness auto
termination
  by (relation "measure (\<lambda>(N, arr, v, i, env). N - i)") auto

declare dispatchVsync_loop.simps [simp del]

definition dispatchVsync ::
  "nat \<Rightarrow> receiver \<Rightarrow> handler \<Rightarrow> jlong \<Rightarrow> jlong \<Rightarrow> jint \<Rightarrow> VsyncEventData \<Rightarrow>
   jni_state \<Rightarrow> jni_state option" where
  "dispatchVsync N rcv h timestamp displayId count vsyncEventData env0 =
     (let (receiverObj, env1) = GetReferent (mReceiverWeakGlobal rcv) env0;
          (vsyncEventDataObj, env2) = GetReferent (mVsyncEventDataWeakGlobal rcv) env1
      in do {
        env3 \<leftarrow>
          (if receiverObj \<noteq> None \<and> vsyncEventDataObj \<noteq> None then do {
             e1 \<leftarrow> SetIntField vsyncEventDataObj F_preferredFrameTimelineIndex
                    (preferredFrameTimelineIndex vsyncEventData) env2;
             e2 \<leftarrow> SetLongField vsyncEventDataObj F_frameInterval
                    (frameInterval vsyncEventData) e1;
             frameTimelinesObj \<leftarrow> GetObjectField vsyncEventDataObj F_frameTimelines e2;
             e3 \<leftarrow> dispatchVsync_loop N frameTimelinesObj vsyncEventData 0 e2;
             Some (CallVoidMethod h (OnVsync receiverObj timestamp displayId count) e3)
           } else Some env2);
        Some (raiseAndClearException ''dispatchVsync'' env3)
      })"

text \<open>
  The loop of \<open>dispatchFrameRateOverrides\<close> over \<open>i = 0 .. overrides.size() - 1\<close>:
  a new \<open>FrameRateOverride\<close> object for each override, stored at its index.
\<close>

function dispatchFrameRateOverrides_loop ::
  "FrameRateOverride list \<Rightarrow> jobject \<Rightarrow> nat \<Rightarrow> jni_state \<Rightarrow> jni_state option" where
  "dispatchFrameRateOverrides_loop overrides frameRateOverrideArray i env =
     (if i < length overrides then
        (let (FrameRateOverrideObject, env1) =
               NewObject (FrameRateOverride_init (uid (overrides ! i))
                            (frameRateHz (overrides ! i))) env
         in case SetObjectArrayElement frameRateOverrideArray i FrameRateOverrideObject env1 of
              None \<Rightarrow> None
            | Some env2 \<Rightarrow>
                dispatchFrameRateOverrides_loop overrides frameRateOverrideArray (Suc i) env2)
      else Some env)"
  by pat_completeness auto
termination
  by (relation "measure (\<lambda>(ovs, arr, i, env). length ovs - i)") auto

declare dispatchFrameRateOverrides_loop.simps [simp del]

text \<open>The message given to \<open>raiseAndClearException\<close> is the source's: it says
  \<open>dispatchModeChanged\<close> here too.\<close>

definition dispatchFrameRateOverrides ::
  "receiver \<Rightarrow> handler \<Rightarrow> jlong \<Rightarrow> jlong \<Rightarrow> FrameRateOverride list \<Rightarrow>
   jni_state \<Rightarrow> jni_state option" where
  "dispatchFrameRateOverrides rcv h timestamp displayId overrides env0 =
     (let (receiverObj, env1) = GetReferent (mReceiverWeakGlobal rcv) env0
      in do {
        env2 \<leftarrow>
          (if receiverObj \<noteq> None then
             (let (frameRateOverrideInitObject, e1) = NewObject (FrameRateOverride_init 0 0) env1;
                  (frameRateOverrideArray, e2) =
                     NewObjectArray (length overrides) frameRateOverrideInitObject e1
              in do {
                e3 \<leftarrow> dispatchFrameRateOverrides_loop overrides frameRateOverrideArray 0 e2;
                Some (CallVoidMethod h
                        (OnFrameRateOverrides receiverObj timestamp displayId
                           frameRateOverrideArray) e3)
              })
           else Some env1);
        Some (raiseAndClearException ''dispatchModeChanged'' env2)
      })"

subsection \<open>The native methods\<close>

function createJavaVsyncEventData_loop ::
  "nat \<Rightarrow> jobject \<Rightarrow> VsyncEventData \<Rightarrow> nat \<Rightarrow> jni_state \<Rightarrow> jni_state option" where
  "createJavaVsyncEventData_loop N frameTimelineObjs vsyncEventData i env =
     (if i < N then
        (let frameTimeline = frameTimelines vsyncEventData ! i;
             (frameTimelineObj, env1) =
               NewObject (FrameTimeline_init (vsyncId frameTimeline)
                            (expectedPresentationTime frameTimeline)
                            (deadlineTimestamp frameTimeline)) env
         in case SetObjectArrayElement frameTimelineObjs i frameTimelineObj env1 of
              None \<Rightarrow> None
            | Some env2 \<Rightarrow>
                createJavaVsyncEventData_loop N frameTimelineObjs vsyncEventData (Suc i) env2)
      else Some env)"
  by pat_completeness auto
termination
  by (relation "measure (\<lambda>(N, arr, v, i, env). N - i)") auto

declare createJavaVsyncEventData_loop.simps [simp del]

definition createJavaVsyncEventData ::
  "nat \<Rightarrow> VsyncEventData \<Rightarrow> jni_state \<Rightarrow> (jobject \<times> jni_state) option" where
  "createJavaVsyncEventData N vsyncEventData env =
     (let (frameTimelineObjs, env1) = NewObjectArray N None env
      in do {
        env2 \<leftarrow> createJavaVsyncEventData_loop N frameTimelineObjs vsyncEventData 0 env1;
        Some (NewObject (VsyncEventData_init frameTimelineObjs
                           (preferredFrameTimelineIndex vsyncEventData)
                           (frameInterval vsyncEventData)) env2)
      })"

text \<open>\<open>appendFormat\<close> with \<open>%d\<close> on a \<open>status_t\<close>, a signed 32-bit integer.\<close>

fun decimal :: "nat \<Rightarrow> string" where
  "decimal n =
     (if n < 10 then [''0123456789'' ! n]
      else decimal (n div 10) @ [''0123456789'' ! (n mod 10)])"

declare decimal.simps [simp del]

definition format_d :: "32 word \<Rightarrow> string" where
  "format_d v =
     (if sint v < 0 then CHR ''-'' # decimal (nat (- sint v)) else decimal (nat (sint v)))"

text \<open>
  The strong references of \<open>RefBase\<close>. A local \<open>sp<NativeDisplayEventReceiver>\<close>
  takes one when it is made from the raw pointer and gives it back when it goes out of
  scope.
\<close>

definition incStrong :: "receiver \<Rightarrow> receiver" where
  "incStrong rcv = rcv\<lparr>strongCount := strongCount rcv + 1\<rparr>"

definition decStrong :: "receiver \<Rightarrow> receiver" where
  "decStrong rcv = rcv\<lparr>strongCount := strongCount rcv - 1\<rparr>"

text \<open>
  \<open>NativeDisplayEventReceiver::dispose\<close> only calls \<open>DisplayEventDispatcher::dispose\<close>,
  which takes the receiver to its last state. \<open>release\<close>, the finalizer, disposes and
  drops the reference that \<open>nativeInit\<close> had kept for the Java object.
\<close>

definition dispose :: "receiver \<Rightarrow> receiver" where
  "dispose rcv = rcv\<lparr>lifecycle := Disposed\<rparr>"

definition release :: "receiver \<Rightarrow> receiver" where
  "release receiver = decStrong (dispose receiver)"

text \<open>
  \<open>nativeInit\<close>. Whether \<open>android_os_MessageQueue_getMessageQueue\<close> finds a queue, and
  the status of \<open>initialize\<close>, are arguments. The constructor stores a global reference
  to each of the two weak references, which resolves as the reference given does; the
  new object is held by a local \<open>sp\<close>, so that it is destroyed when the method
  returns 0 and keeps one strong reference, for the Java object, when it returns the
  pointer. An accepted \<open>initialize\<close> takes the receiver from created to initialized.
\<close>

definition nativeInit ::
  "jweak \<Rightarrow> jweak \<Rightarrow> bool \<Rightarrow> 32 word \<Rightarrow> jni_state \<Rightarrow> receiver option \<times> jni_state"
  where
  "nativeInit receiverWeak vsyncEventDataWeak messageQueue status env =
     (if \<not> messageQueue
      then (None, jniThrowRuntimeException ''MessageQueue is not initialized.'' env)
      else
        (let receiver = incStrong
               \<lparr>mReceiverWeakGlobal = receiverWeak,
                mVsyncEventDataWeakGlobal = vsyncEventDataWeak,
                strongCount = 0, lifecycle = Created\<rparr>
         in if status \<noteq> 0
            then (None, jniThrowRuntimeException
                          (''Failed to initialize display event receiver.  status='' @
                           format_d status) env)
            else (Some (decStrong (incStrong (receiver\<lparr>lifecycle := Initialized\<rparr>))), env)))"

text \<open>A receiver can be used as long as it exists and has not been disposed.\<close>

definition usable :: "receiver \<Rightarrow> bool" where
  "usable rcv = (0 < strongCount rcv \<and> lifecycle rcv = Initialized)"

text \<open>
  \<open>scheduleVsync\<close> and \<open>getLatestVsyncEventData\<close> belong to the compositor's client
  library: the status they return, and the data fetched, are arguments here. By the
  state machine of the receiver, \<open>scheduleVsync\<close> leaves an initialized receiver
  initialized whether it succeeds or not.
\<close>

definition nativeScheduleVsync ::
  "32 word \<Rightarrow> receiver \<Rightarrow> jni_state \<Rightarrow> receiver \<times> jni_state" where
  "nativeScheduleVsync status receiverPtr env =
     (let receiver = incStrong receiverPtr;
          env1 = (if status \<noteq> 0
                  then jniThrowRuntimeException
                         (''Failed to schedule next vertical sync pulse.  status='' @
                          format_d status) env
                  else env)
      in (decStrong receiver, env1))"

text \<open>
  \<open>nativeGetLatestVsyncEventData\<close> holds the receiver through a local \<open>sp\<close> in the same
  way; the receiver comes out as it went in and is left out of the function below.
\<close>

definition ALOGW :: "string \<Rightarrow> jni_state \<Rightarrow> jni_state" where
  "ALOGW msg env = env\<lparr>logged := logged env @ [msg]\<rparr>"

definition nativeGetLatestVsyncEventData ::
  "nat \<Rightarrow> 32 word \<Rightarrow> ParcelableVsyncEventData \<Rightarrow> jni_state \<Rightarrow> (jobject \<times> jni_state) option"
  where
  "nativeGetLatestVsyncEventData N status parcelableVsyncEventData env =
     (if status \<noteq> 0
      then Some (None, ALOGW ''Failed to get latest vsync event data from surface flinger'' env)
      else createJavaVsyncEventData N (vsync parcelableVsyncEventData) env)"

subsection \<open>Reading the Java objects back\<close>

text \<open>
  What the Java side finds in the objects the bridge has written: the frame timeline
  behind a reference, the first \<open>N\<close> frame timelines and the two scalar fields of a
  \<open>VsyncEventData\<close> object, and the overrides behind an array of
  \<open>FrameRateOverride\<close> objects.
\<close>

definition read_timeline :: "java_object list \<Rightarrow> jobject \<Rightarrow> FrameTimeline option" where
  "read_timeline h r =
     (case r of
        None \<Rightarrow> None
      | Some a \<Rightarrow>
          (case obj_at h a of
             Some (FrameTimelineObj i e d) \<Rightarrow>
               Some \<lparr>vsyncId = i, expectedPresentationTime = e, deadlineTimestamp = d\<rparr>
           | _ \<Rightarrow> None))"

definition array_elems :: "java_object list \<Rightarrow> jobject \<Rightarrow> jobject list option" where
  "array_elems h r =
     (case r of
        None \<Rightarrow> None
      | Some a \<Rightarrow> (case obj_at h a of Some (ObjectArray els) \<Rightarrow> Some els | _ \<Rightarrow> None))"

definition buffer_array :: "java_object list \<Rightarrow> addr \<Rightarrow> jobject list option" where
  "buffer_array h b =
     (case obj_at h b of
        Some (VsyncEventDataObj ar p fi) \<Rightarrow> array_elems h ar
      | _ \<Rightarrow> None)"

definition read_buffer :: "nat \<Rightarrow> java_object list \<Rightarrow> addr \<Rightarrow> VsyncEventData option" where
  "read_buffer N h b =
     (case obj_at h b of
        Some (VsyncEventDataObj ar p fi) \<Rightarrow>
          (case array_elems h ar of
             Some els \<Rightarrow>
               (if N \<le> length els \<and> list_all (\<lambda>r. read_timeline h r \<noteq> None) (take N els)
                then Some \<lparr>frameTimelines = map (\<lambda>r. the (read_timeline h r)) (take N els),
                           preferredFrameTimelineIndex = p, frameInterval = fi\<rparr>
                else None)
           | None \<Rightarrow> None)
      | _ \<Rightarrow> None)"

text \<open>
  Modelled from the spec: the Java class that builds the event-data buffer is defined
  in DisplayEventReceiver.java, not in this file. By the data model the buffer holds a
  sequence of \<open>N\<close> frame timelines: its \<open>frameTimelines\<close> field is an array of at
  least \<open>N\<close> entries, and the first \<open>N\<close> are \<open>FrameTimeline\<close> objects, each its
  own.
\<close>

definition wf_buffer :: "nat \<Rightarrow> java_object list \<Rightarrow> addr \<Rightarrow> bool" where
  "wf_buffer N h b =
     (case buffer_array h b of
        None \<Rightarrow> False
      | Some els \<Rightarrow>
          N \<le> length els \<and> list_all (\<lambda>r. read_timeline h r \<noteq> None) (take N els) \<and>
          distinct (take N els))"

definition read_override :: "java_object list \<Rightarrow> jobject \<Rightarrow> FrameRateOverride option" where
  "read_override h r =
     (case r of
        None \<Rightarrow> None
      | Some a \<Rightarrow>
          (case obj_at h a of
             Some (FrameRateOverrideObj u hz) \<Rightarrow> Some \<lparr>uid = u, frameRateHz = hz\<rparr>
           | _ \<Rightarrow> None))"

definition read_overrides :: "java_object list \<Rightarrow> jobject \<Rightarrow> FrameRateOverride list option"
  where
  "read_overrides h arr =
     (case array_elems h arr of
        None \<Rightarrow> None
      | Some els \<Rightarrow>
          (if list_all (\<lambda>r. read_override h r \<noteq> None) els
           then Some (map (\<lambda>r. the (read_override h r)) els)
           else None))"

text \<open>A native override as it reaches the Java side through \<open>NewObject\<close>.\<close>

definition delivered_override :: "FrameRateOverride \<Rightarrow> FrameRateOverride" where
  "delivered_override ov = ov\<lparr>frameRateHz := float_vararg (frameRateHz ov)\<rparr>"

text \<open>
  Two floats are the same value when they have the same bits or are both NaN. A
  delivered override carries a native one when it has its uid and the same rate.
\<close>

definition same_float :: "jfloat \<Rightarrow> jfloat \<Rightarrow> bool" where
  "same_float a b = (a = b \<or> is_nan a \<and> is_nan b)"

definition carries :: "FrameRateOverride \<Rightarrow> FrameRateOverride \<Rightarrow> bool" where
  "carries d ov = (uid d = uid ov \<and> same_float (frameRateHz d) (frameRateHz ov))"

subsection \<open>The callbacks as one function of the event\<close>

text \<open>
  The class overrides five callbacks of \<open>DisplayEventDispatcher\<close>, one for each kind
  of event. To speak of any event, and of one delivery after another, they are put
  together here. \<open>has_handler\<close> holds of the kinds whose callback calls a method of the
  observer, and \<open>sized\<close> says that a vsync payload has its \<open>N\<close> frame timelines.
\<close>

datatype display_event =
    Vsync jlong jlong jint VsyncEventData
  | Hotplug jlong jlong bool
  | ModeChanged jlong jlong jint jlong
  | FrameRateOverrides jlong jlong "FrameRateOverride list"
  | NullEvent jlong jlong

fun dispatchEvent ::
  "nat \<Rightarrow> receiver \<Rightarrow> handler \<Rightarrow> display_event \<Rightarrow> jni_state \<Rightarrow> jni_state option" where
  "dispatchEvent N rcv h (Vsync t d c v) env = dispatchVsync N rcv h t d c v env"
| "dispatchEvent N rcv h (Hotplug t d c) env = dispatchHotplug rcv h t d c env"
| "dispatchEvent N rcv h (ModeChanged t d m p) env = dispatchModeChanged rcv h t d m p env"
| "dispatchEvent N rcv h (FrameRateOverrides t d ovs) env =
     dispatchFrameRateOverrides rcv h t d ovs env"
| "dispatchEvent N rcv h (NullEvent t d) env = dispatchNullEvent rcv h t d env"

fun has_handler :: "display_event \<Rightarrow> bool" where
  "has_handler (NullEvent t d) = False"
| "has_handler _ = True"

fun sized :: "nat \<Rightarrow> display_event \<Rightarrow> bool" where
  "sized N (Vsync t d c v) = (length (frameTimelines v) = N)"
| "sized N _ = True"

subsection \<open>A small Java heap to run the functions on\<close>

text \<open>
  The observer is the object at address 0 and the event-data buffer the object at
  address 1; the buffer's array is at address 2 and holds two frame timelines. In
  \<open>released_env\<close> the observer has been collected. The overrides are 60 Hz and 30 Hz.
\<close>

definition example_receiver :: receiver where
  "example_receiver =
     \<lparr>mReceiverWeakGlobal = 0, mVsyncEventDataWeakGlobal = 1, strongCount = 1,
      lifecycle = Initialized\<rparr>"

definition example_env :: jni_state where
  "example_env =
     \<lparr>heap = [OtherObject, VsyncEventDataObj (Some 2) 0 0, ObjectArray [Some 3, Some 4],
              FrameTimelineObj 0 0 0, FrameTimelineObj 0 0 0],
      referent = (\<lambda>w. if w = 0 then Some 0 else if w = 1 then Some 1 else None),
      resolved = [], pending = None, upcalls = [], raised = [], logged = []\<rparr>"

definition released_env :: jni_state where
  "released_env = example_env\<lparr>referent := (\<lambda>w. if w = 1 then Some 1 else None)\<rparr>"

definition example_payload :: VsyncEventData where
  "example_payload =
     \<lparr>frameTimelines =
        [\<lparr>vsyncId = 10, expectedPresentationTime = 116, deadlineTimestamp = 110\<rparr>,
         \<lparr>vsyncId = 11, expectedPresentationTime = 133, deadlineTimestamp = 127\<rparr>],
      preferredFrameTimelineIndex = 1, frameInterval = 16666667\<rparr>"

definition example_payload4 :: VsyncEventData where
  "example_payload4 =
     \<lparr>frameTimelines =
        [\<lparr>vsyncId = 10, expectedPresentationTime = 116, deadlineTimestamp = 110\<rparr>,
         \<lparr>vsyncId = 11, expectedPresentationTime = 133, deadlineTimestamp = 127\<rparr>,
         \<lparr>vsyncId = 12, expectedPresentationTime = 150, deadlineTimestamp = 144\<rparr>,
         \<lparr>vsyncId = 13, expectedPresentationTime = 166, deadlineTimestamp = 160\<rparr>],
      preferredFrameTimelineIndex = 2, frameInterval = 16666667\<rparr>"

definition example_overrides :: "FrameRateOverride list" where
  "example_overrides = [\<lparr>uid = 10001, frameRateHz = 0x42700000\<rparr>,
                        \<lparr>uid = 10002, frameRateHz = 0x41F00000\<rparr>]"

definition quiet_handler :: handler where
  "quiet_handler c h = None"

definition failing_handler :: handler where
  "failing_handler c h = Some (JavaThrowable 0)"

section \<open>What the loops do to the heap\<close>

lemma float_vararg_0 [simp]: "float_vararg 0 = 0"
  by (simp add: float_vararg_def is_nan_def)

lemma float_vararg_number: "\<not> is_nan f \<Longrightarrow> float_vararg f = f"
  by (simp add: float_vararg_def)

lemma float_vararg_signalling: "float_vararg 0x7FA00000 = 0x7FE00000"
  by (simp add: float_vararg_def is_nan_def)

lemma float_vararg_nan: "is_nan (float_vararg f) = is_nan f"
proof (cases "is_nan f")
  case True
  have a: "(f OR 0x00400000) AND 0x7F800000 = f AND 0x7F800000"
    by (simp add: bit.conj_disj_distrib2)
  have b: "(f OR 0x00400000) AND 0x007FFFFF = (f AND 0x007FFFFF) OR 0x00400000"
    by (simp add: bit.conj_disj_distrib2)
  from True show ?thesis
    by (simp add: float_vararg_def is_nan_def a b or_eq_0_iff)
next
  case False
  then show ?thesis by (simp add: float_vararg_def)
qed

lemma carries_delivered: "carries (delivered_override ov) ov"
  by (cases "is_nan (frameRateHz ov)")
     (simp_all add: carries_def same_float_def delivered_override_def float_vararg_nan
        float_vararg_number)

lemma list_all2_carries: "list_all2 carries (map delivered_override ovs) ovs"
  by (simp add: list_all2_conv_all_nth carries_delivered)

lemma delivered_override_number:
  "\<not> is_nan (frameRateHz ov) \<Longrightarrow> delivered_override ov = ov"
  by (simp add: delivered_override_def float_vararg_number)

lemma dispatchFrameRateOverrides_loop_heap:
  "\<lbrakk> heap env = h0 @ [T, ObjectArray (pre @ replicate m init)] @ objs;
     length pre = i; i + m = length ovs; length objs = i \<rbrakk> \<Longrightarrow>
   dispatchFrameRateOverrides_loop ovs (Some (Suc (length h0))) i env =
     Some (env\<lparr>heap := h0 @ [T, ObjectArray (pre @ map (\<lambda>j. Some (length h0 + 2 + j)) [i..<length ovs])]
              @ objs @ map (\<lambda>ov. FrameRateOverrideObj (uid ov) (float_vararg (frameRateHz ov))) (drop i ovs)\<rparr>)"
proof (induction m arbitrary: i env pre objs)
  case 0
  then have "i = length ovs" by simp
  with 0 show ?case by (simp add: dispatchFrameRateOverrides_loop.simps)
next
  case (Suc m)
  then have lt: "i < length ovs" by simp
  define o' where "o' = FrameRateOverrideObj (uid (ovs ! i)) (float_vararg (frameRateHz (ovs ! i)))"
  define env2 where "env2 = env\<lparr>heap := h0 @ [T, ObjectArray ((pre @ [Some (length h0 + 2 + i)]) @ replicate m init)] @ (objs @ [o'])\<rparr>"
  have step: "dispatchFrameRateOverrides_loop ovs (Some (Suc (length h0))) i env =
      dispatchFrameRateOverrides_loop ovs (Some (Suc (length h0))) (Suc i) env2"
    using lt Suc.prems
    apply (subst dispatchFrameRateOverrides_loop.simps)
    apply (simp add: NewObject_def SetObjectArrayElement_def obj_at_def nth_append env2_def o'_def list_update_append)
    done
  have "dispatchFrameRateOverrides_loop ovs (Some (Suc (length h0))) (Suc i) env2 =
     Some (env2\<lparr>heap := h0 @ [T, ObjectArray ((pre @ [Some (length h0 + 2 + i)]) @ map (\<lambda>j. Some (length h0 + 2 + j)) [Suc i..<length ovs])]
              @ (objs @ [o']) @ map (\<lambda>ov. FrameRateOverrideObj (uid ov) (float_vararg (frameRateHz ov))) (drop (Suc i) ovs)\<rparr>)"
    apply (rule Suc.IH)
    using lt Suc.prems by (simp_all add: env2_def)
  then show ?case
    using lt by (simp add: step env2_def upt_conv_Cons o'_def flip: Cons_nth_drop_Suc)
qed

lemma createJavaVsyncEventData_loop_heap:
  "\<lbrakk> heap env = h0 @ [ObjectArray (pre @ replicate m init)] @ objs;
     length pre = i; i + m = N; length objs = i; length (frameTimelines v) = N \<rbrakk> \<Longrightarrow>
   createJavaVsyncEventData_loop N (Some (length h0)) v i env =
     Some (env\<lparr>heap := h0 @ [ObjectArray (pre @ map (\<lambda>j. Some (length h0 + 1 + j)) [i..<N])]
              @ objs @ map (\<lambda>ft. FrameTimelineObj (vsyncId ft) (expectedPresentationTime ft) (deadlineTimestamp ft))
                         (drop i (frameTimelines v))\<rparr>)"
proof (induction m arbitrary: i env pre objs)
  case 0
  then have "i = N" by simp
  with 0 show ?case by (simp add: createJavaVsyncEventData_loop.simps)
next
  case (Suc m)
  then have lt: "i < N" by simp
  define o' where "o' = FrameTimelineObj (vsyncId (frameTimelines v ! i))
      (expectedPresentationTime (frameTimelines v ! i)) (deadlineTimestamp (frameTimelines v ! i))"
  define env2 where "env2 = env\<lparr>heap := h0 @ [ObjectArray ((pre @ [Some (length h0 + 1 + i)]) @ replicate m init)] @ (objs @ [o'])\<rparr>"
  have step: "createJavaVsyncEventData_loop N (Some (length h0)) v i env =
      createJavaVsyncEventData_loop N (Some (length h0)) v (Suc i) env2"
    using lt Suc.prems
    apply (subst createJavaVsyncEventData_loop.simps)
    apply (simp add: Let_def NewObject_def SetObjectArrayElement_def obj_at_def nth_append env2_def o'_def list_update_append)
    done
  have "createJavaVsyncEventData_loop N (Some (length h0)) v (Suc i) env2 =
     Some (env2\<lparr>heap := h0 @ [ObjectArray ((pre @ [Some (length h0 + 1 + i)]) @ map (\<lambda>j. Some (length h0 + 1 + j)) [Suc i..<N])]
              @ (objs @ [o']) @ map (\<lambda>ft. FrameTimelineObj (vsyncId ft) (expectedPresentationTime ft) (deadlineTimestamp ft))
                         (drop (Suc i) (frameTimelines v))\<rparr>)"
    apply (rule Suc.IH)
    using lt Suc.prems by (simp_all add: env2_def)
  then show ?case
    using lt Suc.prems(5) by (simp add: step env2_def upt_conv_Cons o'_def flip: Cons_nth_drop_Suc)
qed

lemma createJavaVsyncEventData_heap:
  assumes "length (frameTimelines v) = N"
  shows "createJavaVsyncEventData N v env =
     Some (Some (length (heap env) + 1 + N),
           env\<lparr>heap := heap env @ [ObjectArray (map (\<lambda>j. Some (length (heap env) + 1 + j)) [0..<N])]
              @ map (\<lambda>ft. FrameTimelineObj (vsyncId ft) (expectedPresentationTime ft) (deadlineTimestamp ft))
                         (frameTimelines v)
              @ [VsyncEventDataObj (Some (length (heap env))) (preferredFrameTimelineIndex v) (frameInterval v)]\<rparr>)"
proof -
  have "createJavaVsyncEventData_loop N (Some (length (heap env))) v 0
          (env\<lparr>heap := heap env @ [ObjectArray (replicate N None)]\<rparr>) =
        Some (env\<lparr>heap := heap env @ [ObjectArray (replicate N None)]\<rparr>
              \<lparr>heap := heap env @ [ObjectArray ([] @ map (\<lambda>j. Some (length (heap env) + 1 + j)) [0..<N])]
              @ [] @ map (\<lambda>ft. FrameTimelineObj (vsyncId ft) (expectedPresentationTime ft) (deadlineTimestamp ft))
                         (drop 0 (frameTimelines v))\<rparr>)"
    by (rule createJavaVsyncEventData_loop_heap [where m = N and init = None]) (simp_all add: assms)
  then show ?thesis
    using assms by (simp add: createJavaVsyncEventData_def NewObjectArray_def NewObject_def)
qed

lemma read_timeline_Some_iff:
  "read_timeline h r = Some ft \<longleftrightarrow>
   (\<exists>a. r = Some a \<and> a < length h \<and>
        h ! a = FrameTimelineObj (vsyncId ft) (expectedPresentationTime ft) (deadlineTimestamp ft))"
  by (cases ft) (auto simp: read_timeline_def obj_at_def split: option.splits java_object.splits)

lemma read_timeline_not_None:
  "read_timeline h r \<noteq> None \<longleftrightarrow>
   (\<exists>a x y z. r = Some a \<and> a < length h \<and> h ! a = FrameTimelineObj x y z)"
  by (auto simp: read_timeline_def obj_at_def split: option.splits java_object.splits)

lemma set_three_fields:
  assumes "a < length (heap env)" "heap env ! a = FrameTimelineObj x y z"
  shows "(case SetLongField (Some a) F_vsyncId i env of None \<Rightarrow> None | Some env2 \<Rightarrow>
           (case SetLongField (Some a) F_expectedPresentationTime e env2 of None \<Rightarrow> None | Some env3 \<Rightarrow>
             (case SetLongField (Some a) F_deadline d env3 of None \<Rightarrow> None | Some env4 \<Rightarrow> f env4)))
         = f (env\<lparr>heap := (heap env)[a := FrameTimelineObj i e d]\<rparr>)"
  using assms by (simp add: SetLongField_def obj_at_def)

lemma dispatchVsync_loop_fills:
  assumes "obj_at (heap env) ar = Some (ObjectArray els)" "N \<le> length els"
    "\<forall>j<N. read_timeline (heap env) (els ! j) \<noteq> None" "distinct (take N els)"
  shows "\<exists>h'. dispatchVsync_loop N (Some ar) v i env = Some (env\<lparr>heap := h'\<rparr>) \<and>
      length h' = length (heap env) \<and>
      (\<forall>a. (\<forall>j. i \<le> j \<and> j < N \<longrightarrow> els ! j \<noteq> Some a) \<longrightarrow> obj_at h' a = obj_at (heap env) a) \<and>
      (\<forall>j. i \<le> j \<and> j < N \<longrightarrow> read_timeline h' (els ! j) = Some (frameTimelines v ! j))"
  using assms
proof (induction "N - i" arbitrary: i env)
  case 0
  then have "\<not> i < N" by simp
  then have "dispatchVsync_loop N (Some ar) v i env = Some env"
    by (simp add: dispatchVsync_loop.simps)
  with \<open>\<not> i < N\<close> show ?case by (intro exI [of _ "heap env"]) auto
next
  case (Suc k)
  then have lt: "i < N" and k: "k = N - Suc i" by simp_all
  let ?h = "heap env"
  let ?ft = "frameTimelines v ! i"
  from Suc.prems(3) lt have "read_timeline ?h (els ! i) \<noteq> None" by blast
  then obtain a x y z where
    a: "els ! i = Some a" "a < length ?h" "?h ! a = FrameTimelineObj x y z"
    unfolding read_timeline_not_None by blast
  have ar: "ar < length ?h" "?h ! ar = ObjectArray els"
    using Suc.prems(1) by (auto simp: obj_at_def split: if_splits)
  have neq: "a \<noteq> ar" using a ar by auto
  define o' where "o' = FrameTimelineObj (vsyncId ?ft) (expectedPresentationTime ?ft) (deadlineTimestamp ?ft)"
  define env4 where "env4 = env\<lparr>heap := ?h[a := o']\<rparr>"
  have get: "GetObjectArrayElement (Some ar) i env = Some (Some a, env)"
    using ar lt Suc.prems(2) a by (simp add: GetObjectArrayElement_def obj_at_def)
  have step: "dispatchVsync_loop N (Some ar) v i env = dispatchVsync_loop N (Some ar) v (Suc i) env4"
    apply (subst dispatchVsync_loop.simps)
    using lt by (simp add: Let_def get set_three_fields [OF a(2,3)] env4_def o'_def)
  have p1: "obj_at (heap env4) ar = Some (ObjectArray els)"
    using ar neq by (simp add: env4_def obj_at_def)
  have p3: "\<forall>j<N. read_timeline (heap env4) (els ! j) \<noteq> None"
  proof (intro allI impI)
    fix j assume "j < N"
    with Suc.prems(3) have "read_timeline ?h (els ! j) \<noteq> None" by blast
    then obtain a' x' y' z' where
      "els ! j = Some a'" "a' < length ?h" "?h ! a' = FrameTimelineObj x' y' z'"
      unfolding read_timeline_not_None by blast
    then show "read_timeline (heap env4) (els ! j) \<noteq> None"
      unfolding read_timeline_not_None
      by (cases "a' = a") (auto simp: env4_def o'_def)
  qed
  from Suc.hyps(1) [OF k p1 Suc.prems(2) p3 Suc.prems(4)]
  obtain h' where h':
    "dispatchVsync_loop N (Some ar) v (Suc i) env4 = Some (env4\<lparr>heap := h'\<rparr>)"
    "length h' = length (heap env4)"
    "\<forall>a. (\<forall>j. Suc i \<le> j \<and> j < N \<longrightarrow> els ! j \<noteq> Some a) \<longrightarrow> obj_at h' a = obj_at (heap env4) a"
    "\<forall>j. Suc i \<le> j \<and> j < N \<longrightarrow> read_timeline h' (els ! j) = Some (frameTimelines v ! j)"
    by blast
  have later: "\<forall>j. Suc i \<le> j \<and> j < N \<longrightarrow> els ! j \<noteq> Some a"
  proof (intro allI impI)
    fix j assume j: "Suc i \<le> j \<and> j < N"
    have "i < length (take N els)" "j < length (take N els)" "i \<noteq> j"
      using Suc.prems(2) lt j by simp_all
    with Suc.prems(4) have "take N els ! i \<noteq> take N els ! j"
      by (simp only: nth_eq_iff_index_eq not_False_eq_True)
    then show "els ! j \<noteq> Some a" using a(1) lt j by simp
  qed
  have here: "obj_at h' a = Some o'"
    using h'(3) later a(2) by (simp add: env4_def obj_at_def)
  have c1: "dispatchVsync_loop N (Some ar) v i env = Some (env\<lparr>heap := h'\<rparr>)"
    using step h'(1) by (simp add: env4_def)
  have c2: "length h' = length ?h" using h'(2) by (simp add: env4_def)
  have c3: "\<forall>b. (\<forall>j. i \<le> j \<and> j < N \<longrightarrow> els ! j \<noteq> Some b) \<longrightarrow> obj_at h' b = obj_at ?h b"
  proof (intro allI impI)
    fix b assume b: "\<forall>j. i \<le> j \<and> j < N \<longrightarrow> els ! j \<noteq> Some b"
    then have "b \<noteq> a" using a(1) lt by auto
    moreover have "obj_at h' b = obj_at (heap env4) b" using h'(3) b by auto
    ultimately show "obj_at h' b = obj_at ?h b" by (simp add: env4_def obj_at_def)
  qed
  have c4: "\<forall>j. i \<le> j \<and> j < N \<longrightarrow> read_timeline h' (els ! j) = Some (frameTimelines v ! j)"
  proof (intro allI impI)
    fix j assume j: "i \<le> j \<and> j < N"
    show "read_timeline h' (els ! j) = Some (frameTimelines v ! j)"
    proof (cases "j = i")
      case True
      then show ?thesis using here a(1)
        by (auto simp: read_timeline_Some_iff obj_at_def o'_def split: if_splits)
    next
      case False
      then show ?thesis using h'(4) j by simp
    qed
  qed
  from c1 c2 c3 c4 show ?case by blast
qed

section \<open>What the callbacks and native methods do to the state\<close>

lemmas example_defs = example_receiver_def example_env_def released_env_def
  example_payload_def example_payload4_def example_overrides_def quiet_handler_def
  failing_handler_def

lemmas read_defs = wf_buffer_def buffer_array_def array_elems_def obj_at_def read_timeline_def

lemma heap_raiseAndClearException [simp]:
  "heap (raiseAndClearException m env) = heap env"
  "upcalls (raiseAndClearException m env) = upcalls env"
  "referent (raiseAndClearException m env) = referent env"
  "resolved (raiseAndClearException m env) = resolved env"
  "logged (raiseAndClearException m env) = logged env"
  "pending (raiseAndClearException m env) = None"
  by (simp_all add: raiseAndClearException_def split: option.splits)

lemma raised_raiseAndClearException:
  "raised (raiseAndClearException m env) =
     raised env @ (case pending env of None \<Rightarrow> [] | Some e \<Rightarrow> [(m, e)])"
  by (simp add: raiseAndClearException_def split: option.splits)

lemma CallVoidMethod_fields [simp]:
  "heap (CallVoidMethod h c env) = heap env"
  "upcalls (CallVoidMethod h c env) = upcalls env @ [(c, heap env)]"
  "referent (CallVoidMethod h c env) = referent env"
  "resolved (CallVoidMethod h c env) = resolved env"
  "logged (CallVoidMethod h c env) = logged env"
  "raised (CallVoidMethod h c env) = raised env"
  "pending (CallVoidMethod h c env) = h c (heap env)"
  by (simp_all add: CallVoidMethod_def)

lemma dispatchFrameRateOverrides_heap:
  assumes "referent env (mReceiverWeakGlobal rcv) = Some r"
  shows "dispatchFrameRateOverrides rcv h t d ovs env =
     Some (raiseAndClearException ''dispatchModeChanged''
       (CallVoidMethod h (OnFrameRateOverrides (Some r) t d (Some (Suc (length (heap env)))))
         (env\<lparr>resolved := resolved env @ [mReceiverWeakGlobal rcv],
              heap := heap env @ [FrameRateOverrideObj 0 0,
                  ObjectArray (map (\<lambda>j. Some (length (heap env) + 2 + j)) [0..<length ovs])]
                @ map (\<lambda>ov. FrameRateOverrideObj (uid ov) (float_vararg (frameRateHz ov))) ovs\<rparr>)))"
proof -
  let ?e2 = "env\<lparr>resolved := resolved env @ [mReceiverWeakGlobal rcv],
      heap := heap env @ [FrameRateOverrideObj 0 0, ObjectArray (replicate (length ovs) (Some (length (heap env))))]\<rparr>"
  have "dispatchFrameRateOverrides_loop ovs (Some (Suc (length (heap env)))) 0 ?e2 =
     Some (?e2\<lparr>heap := heap env @ [FrameRateOverrideObj 0 0,
                  ObjectArray ([] @ map (\<lambda>j. Some (length (heap env) + 2 + j)) [0..<length ovs])]
                @ [] @ map (\<lambda>ov. FrameRateOverrideObj (uid ov) (float_vararg (frameRateHz ov))) (drop 0 ovs)\<rparr>)"
    by (rule dispatchFrameRateOverrides_loop_heap [where m = "length ovs" and init = "Some (length (heap env))"])
       simp_all
  then show ?thesis
    using assms
    by (simp add: dispatchFrameRateOverrides_def GetReferent_def NewObject_def NewObjectArray_def)
qed

lemma read_overrides_fresh:
  "read_overrides (h0 @ [T, ObjectArray (map (\<lambda>j. Some (length h0 + 2 + j)) [0..<length ovs])]
       @ map (\<lambda>ov. FrameRateOverrideObj (uid ov) (float_vararg (frameRateHz ov))) ovs) (Some (Suc (length h0)))
   = Some (map delivered_override ovs)"
proof -
  let ?h = "h0 @ [T, ObjectArray (map (\<lambda>j. Some (length h0 + 2 + j)) [0..<length ovs])]
       @ map (\<lambda>ov. FrameRateOverrideObj (uid ov) (float_vararg (frameRateHz ov))) ovs"
  have el: "array_elems ?h (Some (Suc (length h0))) = Some (map (\<lambda>j. Some (length h0 + 2 + j)) [0..<length ovs])"
    by (simp add: array_elems_def obj_at_def nth_append)
  have "map (\<lambda>r. the (read_override ?h r)) (map (\<lambda>j. Some (length h0 + 2 + j)) [0..<length ovs])
      = map delivered_override ovs"
    by (rule nth_equalityI) (simp_all add: read_override_def obj_at_def nth_append delivered_override_def)
  moreover have "list_all (\<lambda>r. read_override ?h r \<noteq> None) (map (\<lambda>j. Some (length h0 + 2 + j)) [0..<length ovs])"
    by (simp add: list_all_iff read_override_def obj_at_def nth_append)
  ultimately show ?thesis unfolding read_overrides_def el by (simp only: option.simps if_True)
qed

lemma read_bufferI:
  assumes "obj_at h b = Some (VsyncEventDataObj ar p fi)" "array_elems h ar = Some els"
    "N \<le> length els" "length fts = N"
    "\<And>j. j < N \<Longrightarrow> read_timeline h (els ! j) = Some (fts ! j)"
  shows "read_buffer N h b =
     Some \<lparr>frameTimelines = fts, preferredFrameTimelineIndex = p, frameInterval = fi\<rparr>"
proof -
  have all: "list_all (\<lambda>r. read_timeline h r \<noteq> None) (take N els)"
    using assms(3,5) by (simp add: list_all_length)
  have mp: "map (\<lambda>r. the (read_timeline h r)) (take N els) = fts"
    using assms(3,4,5) by (intro nth_equalityI) simp_all
  show ?thesis
    using assms(1,2,3) all mp by (simp add: read_buffer_def)
qed

lemma createJavaVsyncEventData_read:
  assumes "length (frameTimelines v) = N"
  shows "\<exists>r env' new. createJavaVsyncEventData N v env = Some (Some r, env') \<and>
     read_buffer N (heap env') r = Some v \<and>
     map_option length (buffer_array (heap env') r) = Some N \<and>
     heap env' = heap env @ new \<and> env' = env\<lparr>heap := heap env'\<rparr>"
proof -
  let ?n = "length (heap env)"
  let ?fts = "frameTimelines v"
  define els where "els = map (\<lambda>j. Some (?n + 1 + j)) [0..<N]"
  define new where "new = [ObjectArray els]
      @ map (\<lambda>ft. FrameTimelineObj (vsyncId ft) (expectedPresentationTime ft) (deadlineTimestamp ft)) ?fts
      @ [VsyncEventDataObj (Some ?n) (preferredFrameTimelineIndex v) (frameInterval v)]"
  define h' where "h' = heap env @ new"
  have 1: "createJavaVsyncEventData N v env = Some (Some (?n + 1 + N), env\<lparr>heap := h'\<rparr>)"
    using createJavaVsyncEventData_heap [OF assms, of env] by (simp add: h'_def new_def els_def)
  have ob: "obj_at h' (?n + 1 + N) =
      Some (VsyncEventDataObj (Some ?n) (preferredFrameTimelineIndex v) (frameInterval v))"
    using assms by (simp add: obj_at_def nth_append h'_def new_def)
  have el: "array_elems h' (Some ?n) = Some els"
    by (simp add: array_elems_def obj_at_def nth_append h'_def new_def)
  have rt: "read_timeline h' (els ! j) = Some (?fts ! j)" if "j < N" for j
    using that assms by (simp add: read_timeline_def obj_at_def nth_append h'_def new_def els_def)
  have len: "length els = N" by (simp add: els_def)
  have "read_buffer N h' (?n + 1 + N) =
     Some \<lparr>frameTimelines = ?fts, preferredFrameTimelineIndex = preferredFrameTimelineIndex v,
           frameInterval = frameInterval v\<rparr>"
    by (rule read_bufferI [OF ob el _ assms rt]) (simp_all add: len)
  then have 2: "read_buffer N h' (?n + 1 + N) = Some v" by simp
  have 3: "map_option length (buffer_array h' (?n + 1 + N)) = Some N"
    using ob el len by (simp add: buffer_array_def)
  show ?thesis
    apply (rule exI [of _ "?n + 1 + N"], rule exI [of _ "env\<lparr>heap := h'\<rparr>"], rule exI [of _ new])
    using 1 2 3 by (simp add: h'_def)
qed

lemma wf_bufferD:
  assumes "wf_buffer N h b"
  obtains ara p fi els where
    "obj_at h b = Some (VsyncEventDataObj (Some ara) p fi)"
    "obj_at h ara = Some (ObjectArray els)" "N \<le> length els"
    "\<forall>j<N. read_timeline h (els ! j) \<noteq> None" "distinct (take N els)"
proof -
  from assms obtain els where ba: "buffer_array h b = Some els" and n: "N \<le> length els"
    and la: "list_all (\<lambda>r. read_timeline h r \<noteq> None) (take N els)" and d: "distinct (take N els)"
    by (auto simp: wf_buffer_def split: option.splits)
  from ba obtain ara p fi where "obj_at h b = Some (VsyncEventDataObj (Some ara) p fi)"
    "obj_at h ara = Some (ObjectArray els)"
    by (auto simp: buffer_array_def array_elems_def split: option.splits java_object.splits)
  moreover from la n have "\<forall>j<N. read_timeline h (els ! j) \<noteq> None"
    by (simp add: list_all_length)
  ultimately show thesis using n d that by blast
qed

lemma wf_bufferI:
  assumes "obj_at h b = Some (VsyncEventDataObj (Some ara) p fi)"
    "obj_at h ara = Some (ObjectArray els)" "N \<le> length els"
    "\<forall>j<N. read_timeline h (els ! j) \<noteq> None" "distinct (take N els)"
  shows "wf_buffer N h b" "buffer_array h b = Some els"
  using assms by (simp_all add: wf_buffer_def buffer_array_def array_elems_def list_all_length)

lemma dispatchVsync_delivers:
  assumes r: "referent env (mReceiverWeakGlobal rcv) = Some r"
    and b: "referent env (mVsyncEventDataWeakGlobal rcv) = Some b"
    and wf: "wf_buffer N (heap env) b"
    and len: "length (frameTimelines v) = N"
  shows "\<exists>h'. dispatchVsync N rcv h t d c v env =
       Some (raiseAndClearException ''dispatchVsync''
         (CallVoidMethod h (OnVsync (Some r) t d c)
            (env\<lparr>resolved := resolved env @
                    [mReceiverWeakGlobal rcv, mVsyncEventDataWeakGlobal rcv],
                 heap := h'\<rparr>))) \<and>
     length h' = length (heap env) \<and> read_buffer N h' b = Some v \<and>
     buffer_array h' b = buffer_array (heap env) b \<and> wf_buffer N h' b"
proof -
  let ?h = "heap env"
  from wf obtain ara p0 fi0 els where
    ob: "obj_at ?h b = Some (VsyncEventDataObj (Some ara) p0 fi0)" and
    oa: "obj_at ?h ara = Some (ObjectArray els)" and n: "N \<le> length els" and
    sl: "\<forall>j<N. read_timeline ?h (els ! j) \<noteq> None" and di: "distinct (take N els)"
    by (rule wf_bufferD)
  have bl: "b < length ?h" "?h ! b = VsyncEventDataObj (Some ara) p0 fi0"
    and al: "ara < length ?h" "?h ! ara = ObjectArray els"
    using ob oa by (auto simp: obj_at_def split: if_splits)
  have ne: "ara \<noteq> b" using bl al by auto
  have notslot: "els ! j \<noteq> Some b \<and> els ! j \<noteq> Some ara" if "j < N" for j
  proof -
    from sl that have "read_timeline ?h (els ! j) \<noteq> None" by blast
    then obtain a x y z where "els ! j = Some a" "a < length ?h" "?h ! a = FrameTimelineObj x y z"
      unfolding read_timeline_not_None by blast
    then show ?thesis using bl al by auto
  qed
  define o2 where "o2 = VsyncEventDataObj (Some ara) (preferredFrameTimelineIndex v) (frameInterval v)"
  define env2 where "env2 = env\<lparr>resolved := resolved env @
                    [mReceiverWeakGlobal rcv, mVsyncEventDataWeakGlobal rcv]\<rparr>"
  define e2 where "e2 = env2\<lparr>heap := ?h[b := o2]\<rparr>"
  have s1: "SetIntField (Some b) F_preferredFrameTimelineIndex (preferredFrameTimelineIndex v) env2
      = Some (env2\<lparr>heap := ?h[b := VsyncEventDataObj (Some ara) (preferredFrameTimelineIndex v) fi0]\<rparr>)"
    using bl by (simp add: SetIntField_def obj_at_def env2_def)
  have s2: "SetLongField (Some b) F_frameInterval (frameInterval v)
       (env2\<lparr>heap := ?h[b := VsyncEventDataObj (Some ara) (preferredFrameTimelineIndex v) fi0]\<rparr>)
      = Some e2"
    using bl by (simp add: SetLongField_def obj_at_def env2_def e2_def o2_def)
  have s3: "GetObjectField (Some b) F_frameTimelines e2 = Some (Some ara)"
    using bl by (simp add: GetObjectField_def obj_at_def env2_def e2_def o2_def)
  have h2: "heap e2 = ?h[b := o2]" by (simp add: e2_def)
  have p1: "obj_at (heap e2) ara = Some (ObjectArray els)"
    using al ne by (simp add: h2 obj_at_def)
  have p3: "\<forall>j<N. read_timeline (heap e2) (els ! j) \<noteq> None"
  proof (intro allI impI)
    fix j assume j: "j < N"
    with sl have "read_timeline ?h (els ! j) \<noteq> None" by blast
    then obtain a x y z where a: "els ! j = Some a" "a < length ?h" "?h ! a = FrameTimelineObj x y z"
      unfolding read_timeline_not_None by blast
    with notslot [OF j] have "a \<noteq> b" by auto
    with a show "read_timeline (heap e2) (els ! j) \<noteq> None"
      unfolding read_timeline_not_None by (auto simp: h2)
  qed
  from dispatchVsync_loop_fills [OF p1 n p3 di, of v 0]
  obtain h' where h':
    "dispatchVsync_loop N (Some ara) v 0 e2 = Some (e2\<lparr>heap := h'\<rparr>)"
    "length h' = length (heap e2)"
    "\<forall>a. (\<forall>j. 0 \<le> j \<and> j < N \<longrightarrow> els ! j \<noteq> Some a) \<longrightarrow> obj_at h' a = obj_at (heap e2) a"
    "\<forall>j. 0 \<le> j \<and> j < N \<longrightarrow> read_timeline h' (els ! j) = Some (frameTimelines v ! j)"
    by blast
  have run: "dispatchVsync N rcv h t d c v env =
       Some (raiseAndClearException ''dispatchVsync''
         (CallVoidMethod h (OnVsync (Some r) t d c) (e2\<lparr>heap := h'\<rparr>)))"
    using r b by (simp add: dispatchVsync_def GetReferent_def s1 s2 s3 h'(1) flip: env2_def)
  have e2h: "e2\<lparr>heap := h'\<rparr> = env\<lparr>resolved := resolved env @
                    [mReceiverWeakGlobal rcv, mVsyncEventDataWeakGlobal rcv], heap := h'\<rparr>"
    by (simp add: e2_def env2_def)
  have ob': "obj_at h' b = Some o2"
    using h'(3) notslot bl by (simp add: h2 obj_at_def)
  have oa': "obj_at h' ara = Some (ObjectArray els)"
    using h'(3) notslot p1 by simp
  have ae': "array_elems h' (Some ara) = Some els"
    using oa' by (simp add: array_elems_def)
  have "read_buffer N h' b = Some \<lparr>frameTimelines = frameTimelines v,
      preferredFrameTimelineIndex = preferredFrameTimelineIndex v, frameInterval = frameInterval v\<rparr>"
    using h'(4) by (intro read_bufferI [OF ob' [unfolded o2_def] ae' n len]) simp
  then have rb: "read_buffer N h' b = Some v" by simp
  have sl': "\<forall>j<N. read_timeline h' (els ! j) \<noteq> None" using h'(4) by simp
  have wf': "wf_buffer N h' b" and ba': "buffer_array h' b = Some els"
    using wf_bufferI [OF ob' [unfolded o2_def] oa' n sl' di] by simp_all
  have ba: "buffer_array ?h b = Some els"
    using wf_bufferI(2) [OF ob oa n sl di] .
  have ln: "length h' = length ?h" using h'(2) by (simp add: h2)
  show ?thesis
    apply (rule exI [of _ h'])
    using run e2h ln rb ba ba' wf' by simp
qed

lemma obj_at_append: "obj_at h a = Some ob \<Longrightarrow> obj_at (h @ new) a = Some ob"
  by (auto simp: obj_at_def nth_append split: if_splits)

lemma read_timeline_append:
  "read_timeline h r \<noteq> None \<Longrightarrow> read_timeline (h @ new) r \<noteq> None"
  unfolding read_timeline_not_None by (auto simp: nth_append)

lemma wf_buffer_append:
  assumes "wf_buffer N h b"
  shows "wf_buffer N (h @ new) b"
proof -
  from assms obtain ara p fi els where
    1: "obj_at h b = Some (VsyncEventDataObj (Some ara) p fi)"
    "obj_at h ara = Some (ObjectArray els)" "N \<le> length els"
    "\<forall>j<N. read_timeline h (els ! j) \<noteq> None" "distinct (take N els)"
    by (rule wf_bufferD)
  from 1(4) have "\<forall>j<N. read_timeline (h @ new) (els ! j) \<noteq> None"
    using read_timeline_append by blast
  with 1 show ?thesis
    by (intro wf_bufferI(1) [OF obj_at_append obj_at_append])
qed

lemma delivered_fields:
  assumes "run = Some (raiseAndClearException msg (CallVoidMethod h c e))"
    "upcalls e = upcalls env" "raised e = raised env" "referent e = referent env"
    "wf_buffer N (heap e) b"
  shows "\<exists>env' c. run = Some env' \<and>
     upcalls env' = upcalls env @ [(c, heap env')] \<and>
     pending env' = None \<and>
     (\<exists>msg. raised env' = raised env @
        (case h c (heap env') of None \<Rightarrow> [] | Some e \<Rightarrow> [(msg, e)])) \<and>
     referent env' = referent env \<and> wf_buffer N (heap env') b"
proof -
  let ?env' = "raiseAndClearException msg (CallVoidMethod h c e)"
  have "\<exists>m. raised ?env' = raised env @
        (case h c (heap ?env') of None \<Rightarrow> [] | Some e \<Rightarrow> [(m, e)])"
    by (rule exI [of _ msg]) (simp add: raised_raiseAndClearException assms(3))
  then show ?thesis
    apply (intro exI [of _ ?env'] exI [of _ c])
    using assms by simp
qed

lemma dispatchEvent_delivers:
  assumes r: "referent env (mReceiverWeakGlobal rcv) = Some r"
    and b: "referent env (mVsyncEventDataWeakGlobal rcv) = Some b"
    and wf: "wf_buffer N (heap env) b"
    and ev: "has_handler ev" "sized N ev"
  shows "\<exists>env' c. dispatchEvent N rcv h ev env = Some env' \<and>
     upcalls env' = upcalls env @ [(c, heap env')] \<and>
     pending env' = None \<and>
     (\<exists>msg. raised env' = raised env @
        (case h c (heap env') of None \<Rightarrow> [] | Some e \<Rightarrow> [(msg, e)])) \<and>
     referent env' = referent env \<and> wf_buffer N (heap env') b"
proof (cases ev)
  case (Vsync t d c v)
  with ev have len: "length (frameTimelines v) = N" by simp
  from dispatchVsync_delivers [OF r b wf len, of h t d c]
  obtain h' where h': "dispatchVsync N rcv h t d c v env =
       Some (raiseAndClearException ''dispatchVsync''
         (CallVoidMethod h (OnVsync (Some r) t d c)
            (env\<lparr>resolved := resolved env @
                    [mReceiverWeakGlobal rcv, mVsyncEventDataWeakGlobal rcv],
                 heap := h'\<rparr>)))" "wf_buffer N h' b"
    by blast
  show ?thesis
    unfolding Vsync dispatchEvent.simps
    by (rule delivered_fields [OF h'(1)]) (simp_all add: h'(2))
next
  case (Hotplug t d c)
  have "dispatchHotplug rcv h t d c env =
      Some (raiseAndClearException ''dispatchHotplug''
         (CallVoidMethod h (OnHotplug (Some r) t d c)
            (env\<lparr>resolved := resolved env @ [mReceiverWeakGlobal rcv]\<rparr>)))"
    using r by (simp add: dispatchHotplug_def GetReferent_def)
  then show ?thesis
    unfolding Hotplug dispatchEvent.simps
    by (rule delivered_fields) (simp_all add: wf)
next
  case (ModeChanged t d m p)
  have "dispatchModeChanged rcv h t d m p env =
      Some (raiseAndClearException ''dispatchModeChanged''
         (CallVoidMethod h (OnModeChanged (Some r) t d m p)
            (env\<lparr>resolved := resolved env @ [mReceiverWeakGlobal rcv]\<rparr>)))"
    using r by (simp add: dispatchModeChanged_def GetReferent_def)
  then show ?thesis
    unfolding ModeChanged dispatchEvent.simps
    by (rule delivered_fields) (simp_all add: wf)
next
  case (FrameRateOverrides t d ovs)
  show ?thesis
    unfolding FrameRateOverrides dispatchEvent.simps
    by (rule delivered_fields [OF dispatchFrameRateOverrides_heap [OF r]])
       (simp_all add: wf_buffer_append [OF wf])
next
  case (NullEvent t d)
  with ev show ?thesis by simp
qed

section \<open>The claims\<close>

text \<open>C1: when the observer's weak reference does not resolve, the event is dropped
  silently. With no exception pending on entry, the state after \<open>dispatchHotplug\<close>,
  \<open>dispatchModeChanged\<close> and \<open>dispatchFrameRateOverrides\<close> is the state before, but
  for the record that the reference was resolved: no method of the observer is called,
  nothing is raised or left pending, the heap is as it was. \<open>dispatchVsync\<close> does the
  same as soon as one of its two weak references, the observer's or the buffer's, does
  not resolve: the buffer is not written and the observer is not called.\<close>

theorem drop_when_unresolved:
  assumes "pending env = None"
  shows "(referent env (mReceiverWeakGlobal rcv) = None \<longrightarrow>
            dispatchHotplug rcv h t d c env =
              Some (env\<lparr>resolved := resolved env @ [mReceiverWeakGlobal rcv]\<rparr>) \<and>
            dispatchModeChanged rcv h t d m p env =
              Some (env\<lparr>resolved := resolved env @ [mReceiverWeakGlobal rcv]\<rparr>) \<and>
            dispatchFrameRateOverrides rcv h t d ovs env =
              Some (env\<lparr>resolved := resolved env @ [mReceiverWeakGlobal rcv]\<rparr>)) \<and>
         (referent env (mReceiverWeakGlobal rcv) = None \<or>
          referent env (mVsyncEventDataWeakGlobal rcv) = None \<longrightarrow>
            dispatchVsync N rcv h t d cnt v env =
              Some (env\<lparr>resolved := resolved env @
                      [mReceiverWeakGlobal rcv, mVsyncEventDataWeakGlobal rcv]\<rparr>))"
  using assms
  by (auto simp: dispatchHotplug_def dispatchModeChanged_def dispatchFrameRateOverrides_def
      dispatchVsync_def GetReferent_def raiseAndClearException_def)

theorem drop_when_unresolved_witness:
  "pending released_env = None \<and> referent released_env (mReceiverWeakGlobal example_receiver) = None \<and>
   dispatchHotplug example_receiver failing_handler 100 7 True released_env =
     Some (released_env\<lparr>resolved := [0]\<rparr>) \<and>
   dispatchVsync 2 example_receiver failing_handler 100 7 1 example_payload released_env =
     Some (released_env\<lparr>resolved := [0, 1]\<rparr>)"
  using drop_when_unresolved [where env = released_env and rcv = example_receiver
      and h = failing_handler and t = 100 and d = 7 and c = True and cnt = 1 and N = 2
      and v = example_payload]
  by (simp add: example_defs)

text \<open>C2: when both weak references resolve (and the buffer is the one the Java class
  builds: an array of at least \<open>N\<close> frame timeline objects, each its own), \<open>dispatchVsync\<close>
  calls the observer's vsync method once, with the timestamp, the display id and the
  count, on a heap in which the buffer already holds the whole payload: the preferred
  index, the frame interval and every one of the \<open>N\<close> frame timelines. The buffer is
  written in place: no object is allocated, the buffer's array and its entries are the same
  references as before, and the weak references resolve as before.\<close>

theorem dispatchVsync_populates_buffer:
  assumes "referent env (mReceiverWeakGlobal rcv) = Some r"
    and "referent env (mVsyncEventDataWeakGlobal rcv) = Some b"
    and "wf_buffer N (heap env) b"
    and "length (frameTimelines v) = N"
  shows "\<exists>env'. dispatchVsync N rcv h t d c v env = Some env' \<and>
     upcalls env' = upcalls env @ [(OnVsync (Some r) t d c, heap env')] \<and>
     read_buffer N (heap env') b = Some v \<and>
     length (heap env') = length (heap env) \<and>
     buffer_array (heap env') b = buffer_array (heap env) b \<and>
     referent env' = referent env"
proof -
  from dispatchVsync_delivers [OF assms, of h t d c]
  obtain h' where h': "dispatchVsync N rcv h t d c v env =
       Some (raiseAndClearException ''dispatchVsync''
         (CallVoidMethod h (OnVsync (Some r) t d c)
            (env\<lparr>resolved := resolved env @
                    [mReceiverWeakGlobal rcv, mVsyncEventDataWeakGlobal rcv],
                 heap := h'\<rparr>)))"
    "length h' = length (heap env)" "read_buffer N h' b = Some v"
    "buffer_array h' b = buffer_array (heap env) b"
    by blast
  show ?thesis
    unfolding h'(1) using h'(2,3,4) by simp
qed

theorem dispatchVsync_populates_buffer_witness:
  "\<exists>env'. dispatchVsync 2 example_receiver quiet_handler 100 7 1 example_payload example_env =
       Some env' \<and>
     upcalls env' = upcalls example_env @ [(OnVsync (Some 0) 100 7 1, heap env')] \<and>
     read_buffer 2 (heap env') 1 = Some example_payload \<and>
     length (heap env') = length (heap example_env) \<and>
     buffer_array (heap env') 1 = buffer_array (heap example_env) 1 \<and>
     referent env' = referent example_env"
  by (rule dispatchVsync_populates_buffer) (simp_all add: example_defs read_defs)

text \<open>C4: \<open>createJavaVsyncEventData\<close> returns a new \<open>VsyncEventData\<close> object whose
  array has exactly \<open>N\<close> entries and which reads back as the native payload: every frame
  timeline at its index, the preferred index and the frame interval unchanged. Nothing
  that was on the heap is touched. The example after the theorem is the payload of four
  timelines with vsync ids 10, 11, 12, 13, preferred index 2 and frame interval 16666667.\<close>

theorem createJavaVsyncEventData_encodes:
  assumes "length (frameTimelines v) = N"
  shows "\<exists>r env' new. createJavaVsyncEventData N v env = Some (Some r, env') \<and>
     read_buffer N (heap env') r = Some v \<and>
     map_option length (buffer_array (heap env') r) = Some N \<and>
     heap env' = heap env @ new"
  using createJavaVsyncEventData_read [OF assms, of env] by blast

theorem createJavaVsyncEventData_encodes_witness:
  "\<exists>r env'. createJavaVsyncEventData 4 example_payload4 example_env = Some (Some r, env') \<and>
     (\<exists>v'. read_buffer 4 (heap env') r = Some v' \<and>
        vsyncId (frameTimelines v' ! 2) = 12 \<and> frameInterval v' = 16666667 \<and>
        preferredFrameTimelineIndex v' = 2)"
  using createJavaVsyncEventData_encodes [of example_payload4 4 example_env]
  by (auto simp: example_payload4_def)

text \<open>C5: with a live observer, \<open>dispatchFrameRateOverrides\<close> calls the observer
  once with an array (never \<open>NULL\<close>, also for no override at all) that has one entry
  for each override and reads back as the overrides given, in order, each as
  \<open>NewObject\<close> hands it over: the uid as it is, and the rate as it is unless it is a
  NaN, which arrives as a quiet NaN. So every entry carries its override's uid and
  rate, and overrides whose rates are not NaN read back bit for bit. The entries are pairwise different objects, and none of them is the object
  built first with \<open>(0, 0)\<close> to fill the new array, which is the one at the first free
  address.\<close>

theorem frameRateOverrides_delivered:
  assumes "referent env (mReceiverWeakGlobal rcv) = Some r"
  shows "\<exists>env' arr els.
     dispatchFrameRateOverrides rcv h t d ovs env = Some env' \<and>
     upcalls env' = upcalls env @ [(OnFrameRateOverrides (Some r) t d (Some arr), heap env')] \<and>
     array_elems (heap env') (Some arr) = Some els \<and>
     length els = length ovs \<and>
     read_overrides (heap env') (Some arr) = Some (map delivered_override ovs) \<and>
     list_all2 carries (map delivered_override ovs) ovs \<and>
     ((\<forall>ov \<in> set ovs. \<not> is_nan (frameRateHz ov)) \<longrightarrow>
        read_overrides (heap env') (Some arr) = Some ovs) \<and>
     distinct els \<and>
     Some (length (heap env)) \<notin> set els"
proof -
  let ?els = "map (\<lambda>j. Some (length (heap env) + 2 + j)) [0..<length ovs]"
  let ?h' = "heap env @ [FrameRateOverrideObj 0 0, ObjectArray ?els]
                @ map (\<lambda>ov. FrameRateOverrideObj (uid ov) (float_vararg (frameRateHz ov))) ovs"
  let ?env' = "raiseAndClearException ''dispatchModeChanged''
       (CallVoidMethod h (OnFrameRateOverrides (Some r) t d (Some (Suc (length (heap env)))))
         (env\<lparr>resolved := resolved env @ [mReceiverWeakGlobal rcv], heap := ?h'\<rparr>))"
  have 1: "dispatchFrameRateOverrides rcv h t d ovs env = Some ?env'"
    by (rule dispatchFrameRateOverrides_heap [OF assms])
  have 2: "heap ?env' = ?h'" by simp
  have 3: "upcalls ?env' = upcalls env @ [(OnFrameRateOverrides (Some r) t d (Some (Suc (length (heap env)))), ?h')]"
    by simp
  have 4: "array_elems ?h' (Some (Suc (length (heap env)))) = Some ?els"
    by (simp add: array_elems_def obj_at_def nth_append)
  have 5: "read_overrides ?h' (Some (Suc (length (heap env)))) = Some (map delivered_override ovs)"
    by (rule read_overrides_fresh)
  have 6: "distinct ?els" by (simp add: distinct_map inj_on_def)
  have 7: "Some (length (heap env)) \<notin> set ?els" by auto
  have 8: "length ?els = length ovs" by simp
  have 9: "(\<forall>ov \<in> set ovs. \<not> is_nan (frameRateHz ov)) \<longrightarrow>
        Some (map delivered_override ovs) = Some ovs"
  proof
    assume "\<forall>ov \<in> set ovs. \<not> is_nan (frameRateHz ov)"
    then have "map delivered_override ovs = ovs"
      by (intro map_idI) (simp add: delivered_override_number)
    then show "Some (map delivered_override ovs) = Some ovs" by simp
  qed
  show ?thesis
    apply (rule exI [of _ ?env'], rule exI [of _ "Suc (length (heap env))"], rule exI [of _ ?els])
    apply (simp only: 1 2 3 4 5 6 7 8 list_all2_carries simp_thms)
    apply (rule 9)
    done
qed

theorem frameRateOverrides_delivered_witness:
  "list_all (\<lambda>ov. \<not> is_nan (frameRateHz ov)) example_overrides \<and>
   (\<exists>env' arr els.
     dispatchFrameRateOverrides example_receiver quiet_handler 100 7 example_overrides example_env = Some env' \<and>
     upcalls env' = upcalls example_env @ [(OnFrameRateOverrides (Some 0) 100 7 (Some arr), heap env')] \<and>
     array_elems (heap env') (Some arr) = Some els \<and>
     length els = length example_overrides \<and>
     read_overrides (heap env') (Some arr) = Some example_overrides \<and>
     distinct els \<and>
     Some (length (heap example_env)) \<notin> set els)"
proof -
  have n: "\<forall>ov \<in> set example_overrides. \<not> is_nan (frameRateHz ov)"
    by (simp add: example_overrides_def is_nan_def)
  have r: "referent example_env (mReceiverWeakGlobal example_receiver) = Some 0"
    by (simp add: example_defs)
  from frameRateOverrides_delivered [OF r, of quiet_handler 100 7 example_overrides] n
  show ?thesis unfolding list_all_iff by blast
qed

text \<open>C6: for every kind of event whose callback calls the observer: if the
  observer's method throws, the exception is handed to the message queue after the call
  and is no longer pending; the weak references resolve as before; and the next event,
  of any such kind, is delivered to the observer again.\<close>

theorem handler_failure_propagated:
  assumes r: "referent env (mReceiverWeakGlobal rcv) = Some r"
    and b: "referent env (mVsyncEventDataWeakGlobal rcv) = Some b"
    and wf: "wf_buffer N (heap env) b"
    and ev1: "has_handler ev1" "sized N ev1"
    and ev2: "has_handler ev2" "sized N ev2"
  shows "\<exists>env1 c1. dispatchEvent N rcv h ev1 env = Some env1 \<and>
     upcalls env1 = upcalls env @ [(c1, heap env1)] \<and>
     (\<forall>e. h c1 (heap env1) = Some e \<longrightarrow>
        (\<exists>msg. raised env1 = raised env @ [(msg, e)]) \<and>
        pending env1 = None \<and> referent env1 = referent env \<and>
        (\<exists>env2 c2. dispatchEvent N rcv h ev2 env1 = Some env2 \<and>
            upcalls env2 = upcalls env1 @ [(c2, heap env2)]))"
proof -
  from dispatchEvent_delivers [OF r b wf ev1, of h]
  obtain env1 c1 msg where 1: "dispatchEvent N rcv h ev1 env = Some env1"
    "upcalls env1 = upcalls env @ [(c1, heap env1)]" "pending env1 = None"
    "raised env1 = raised env @ (case h c1 (heap env1) of None \<Rightarrow> [] | Some e \<Rightarrow> [(msg, e)])"
    "referent env1 = referent env" "wf_buffer N (heap env1) b"
    by blast
  from r b 1(5) have r1: "referent env1 (mReceiverWeakGlobal rcv) = Some r"
    and b1: "referent env1 (mVsyncEventDataWeakGlobal rcv) = Some b" by simp_all
  from dispatchEvent_delivers [OF r1 b1 1(6) ev2, of h]
  obtain env2 c2 where 2: "dispatchEvent N rcv h ev2 env1 = Some env2"
    "upcalls env2 = upcalls env1 @ [(c2, heap env2)]"
    by blast
  show ?thesis
    apply (rule exI [of _ env1], rule exI [of _ c1])
    using 1 2 by auto
qed

theorem handler_failure_propagated_witness:
  "\<exists>env1 c1. dispatchEvent 2 example_receiver failing_handler
        (Vsync 100 7 1 example_payload) example_env = Some env1 \<and>
     upcalls env1 = upcalls example_env @ [(c1, heap env1)] \<and>
     (\<forall>e. failing_handler c1 (heap env1) = Some e \<longrightarrow>
        (\<exists>msg. raised env1 = raised example_env @ [(msg, e)]) \<and>
        pending env1 = None \<and> referent env1 = referent example_env \<and>
        (\<exists>env2 c2. dispatchEvent 2 example_receiver failing_handler
              (FrameRateOverrides 200 7 example_overrides) env1 = Some env2 \<and>
            upcalls env2 = upcalls env1 @ [(c2, heap env2)]))"
  by (rule handler_failure_propagated [where r = 0 and b = 1])
     (simp_all add: example_defs read_defs)

text \<open>C7: when the fetch fails (a status other than 0),
  \<open>nativeGetLatestVsyncEventData\<close> writes a warning and returns \<open>NULL\<close>, building
  nothing; when it succeeds, it returns a new object, never \<open>NULL\<close>, that reads back as
  the payload fetched. So the caller tells a failed query from data.\<close>

theorem getLatestVsyncEventData_result:
  "(status \<noteq> 0 \<longrightarrow>
      nativeGetLatestVsyncEventData N status p env =
        Some (None, env\<lparr>logged := logged env @
                 [''Failed to get latest vsync event data from surface flinger'']\<rparr>)) \<and>
   (status = 0 \<and> length (frameTimelines (vsync p)) = N \<longrightarrow>
      (\<exists>r env' new. nativeGetLatestVsyncEventData N status p env = Some (Some r, env') \<and>
          read_buffer N (heap env') r = Some (vsync p) \<and>
          heap env' = heap env @ new \<and> env' = env\<lparr>heap := heap env'\<rparr>))"
  using createJavaVsyncEventData_read [of "vsync p" N env]
  by (auto simp: nativeGetLatestVsyncEventData_def ALOGW_def)

theorem getLatestVsyncEventData_result_witness:
  "nativeGetLatestVsyncEventData 4 (- 1) \<lparr>vsync = example_payload4\<rparr> example_env =
     Some (None, example_env\<lparr>logged :=
        [''Failed to get latest vsync event data from surface flinger'']\<rparr>) \<and>
   (\<exists>r env' new.
      nativeGetLatestVsyncEventData 4 0 \<lparr>vsync = example_payload4\<rparr> example_env =
        Some (Some r, env') \<and>
      read_buffer 4 (heap env') r = Some example_payload4 \<and>
      heap env' = heap example_env @ new \<and> env' = example_env\<lparr>heap := heap env'\<rparr>)"
  using getLatestVsyncEventData_result [of "- 1" 4 "\<lparr>vsync = example_payload4\<rparr>" example_env]
    getLatestVsyncEventData_result [of 0 4 "\<lparr>vsync = example_payload4\<rparr>" example_env]
  by (simp add: example_defs)

text \<open>C8: when \<open>scheduleVsync\<close> returns a status other than 0,
  \<open>nativeScheduleVsync\<close> leaves a \<open>RuntimeException\<close> with the status in its message
  pending for the Java caller and changes nothing else in the Java state. The receiver
  comes back as it went in, with the same count of strong references and not disposed:
  a receiver that could be used can still be used, and a later call that the source
  accepts returns without an exception.\<close>

theorem scheduleVsync_error_reported:
  assumes "status \<noteq> 0" and "usable rcv"
  shows "\<exists>rcv'. nativeScheduleVsync status rcv env =
       (rcv', env\<lparr>pending := Some (RuntimeException
          (''Failed to schedule next vertical sync pulse.  status='' @ format_d status))\<rparr>) \<and>
     rcv' = rcv \<and> usable rcv' \<and>
     (\<forall>env2. nativeScheduleVsync 0 rcv' env2 = (rcv', env2))"
  using assms
  by (simp add: nativeScheduleVsync_def jniThrowRuntimeException_def incStrong_def
      decStrong_def)

theorem scheduleVsync_error_reported_witness:
  "usable example_receiver \<and>
   nativeScheduleVsync (- 32) example_receiver example_env =
     (example_receiver, example_env\<lparr>pending := Some (RuntimeException
        ''Failed to schedule next vertical sync pulse.  status=-32'')\<rparr>) \<and>
   nativeScheduleVsync 0 example_receiver example_env = (example_receiver, example_env)"
proof -
  have u: "usable example_receiver"
    by (simp add: usable_def example_receiver_def)
  have s: "(- 32 :: 32 word) \<noteq> 0" by simp
  from scheduleVsync_error_reported [OF s u, of example_env] u
  show ?thesis by (simp add: format_d_def decimal.simps)
qed

lemma nativeInit_usable:
  "nativeInit receiverWeak vsyncEventDataWeak True 0 env = (Some rcv, env') \<Longrightarrow> usable rcv"
  by (auto simp: nativeInit_def usable_def incStrong_def decStrong_def)

lemma nativeInit_example:
  "nativeInit 0 1 True 0 example_env = (Some example_receiver, example_env)"
  by (simp add: nativeInit_def incStrong_def decStrong_def example_receiver_def)

lemma release_not_usable: "\<not> usable (release rcv)"
  by (simp add: usable_def release_def dispose_def decStrong_def)

lemma dispose_not_usable: "\<not> usable (dispose rcv)"
  by (simp add: usable_def dispose_def)

text \<open>C9: a null event is a no-op: whatever the state of the observer, the state
  after \<open>dispatchNullEvent\<close> is the state before it, so no handler is called, nothing is
  mutated and no exception is raised or left pending.\<close>

theorem dispatchNullEvent_noop:
  "dispatchNullEvent rcv h timestamp displayId env = Some env"
  by (simp add: dispatchNullEvent_def)

text \<open>C10: the callbacks other than \<open>dispatchVsync\<close> leave the event-data buffer
  alone. The only weak reference that \<open>dispatchHotplug\<close>, \<open>dispatchModeChanged\<close> and
  \<open>dispatchFrameRateOverrides\<close> resolve is the observer's, and \<open>dispatchNullEvent\<close>
  resolves none. The first two leave the heap as it is; the third only adds new objects
  after the ones there, which stay as they are; the last changes nothing.\<close>

theorem non_vsync_leaves_buffer:
  "(\<exists>env'. dispatchHotplug rcv h t d c env = Some env' \<and> heap env' = heap env \<and>
       resolved env' = resolved env @ [mReceiverWeakGlobal rcv]) \<and>
   (\<exists>env'. dispatchModeChanged rcv h t d m p env = Some env' \<and> heap env' = heap env \<and>
       resolved env' = resolved env @ [mReceiverWeakGlobal rcv]) \<and>
   (\<exists>env' new. dispatchFrameRateOverrides rcv h t d ovs env = Some env' \<and>
       heap env' = heap env @ new \<and>
       resolved env' = resolved env @ [mReceiverWeakGlobal rcv]) \<and>
   (\<exists>env'. dispatchNullEvent rcv h t d env = Some env' \<and> heap env' = heap env \<and>
       resolved env' = resolved env)"
proof -
  have 1: "\<exists>env'. dispatchHotplug rcv h t d c env = Some env' \<and> heap env' = heap env \<and>
       resolved env' = resolved env @ [mReceiverWeakGlobal rcv]"
    by (simp add: dispatchHotplug_def GetReferent_def)
  have 2: "\<exists>env'. dispatchModeChanged rcv h t d m p env = Some env' \<and> heap env' = heap env \<and>
       resolved env' = resolved env @ [mReceiverWeakGlobal rcv]"
    by (simp add: dispatchModeChanged_def GetReferent_def)
  have 3: "\<exists>env' new. dispatchFrameRateOverrides rcv h t d ovs env = Some env' \<and>
       heap env' = heap env @ new \<and>
       resolved env' = resolved env @ [mReceiverWeakGlobal rcv]"
  proof (cases "referent env (mReceiverWeakGlobal rcv)")
    case None
    then show ?thesis
      by (simp add: dispatchFrameRateOverrides_def GetReferent_def)
  next
    case (Some r)
    show ?thesis
      unfolding dispatchFrameRateOverrides_heap [OF Some] by simp
  qed
  have 4: "\<exists>env'. dispatchNullEvent rcv h t d env = Some env' \<and> heap env' = heap env \<and>
       resolved env' = resolved env"
    by (simp add: dispatchNullEvent_def)
  from 1 2 3 4 show ?thesis by blast
qed

end
